theory Spec2Isabelle
  imports Main "HOL-Library.Word"
begin

section \<open>Bytes, struct packing and the keyed hasher\<close>

text \<open>
  Python \<open>bytes\<close> values are lists of 8-bit words; Python integers are unbounded, so
  header fields are \<open>int\<close> and the range checks of \<open>struct.pack\<close> are written out.
\<close>

type_synonym byte = "8 word"
type_synonym bytes = "byte list"

text \<open>
  The exceptions the modelled code can raise: \<open>struct.error\<close>, \<open>AttributeError\<close>, and
  whatever the constructor of \<open>CheckpointStore\<close> raises on a file it cannot load
  (\<open>LoadError\<close>).
\<close>

datatype exn = StructError | AttributeError | LoadError

text \<open>The format characters of the \<open>struct\<close> module that the code uses (all little-endian).\<close>

datatype fmt = Fmt_H | Fmt_I | Fmt_Q

fun fmt_size :: "fmt \<Rightarrow> nat" where
  "fmt_size Fmt_H = 2"
| "fmt_size Fmt_I = 4"
| "fmt_size Fmt_Q = 8"

text \<open>The \<open>n\<close> little-endian bytes of an integer: least significant byte first.\<close>

definition le_bytes :: "nat \<Rightarrow> int \<Rightarrow> bytes" where
  "le_bytes n v = map (\<lambda>i. word_of_int (v div 256 ^ i)) [0..<n]"

text \<open>The values that an unsigned field of format \<open>f\<close> can hold.\<close>

definition fits :: "fmt \<Rightarrow> int \<Rightarrow> bool" where
  "fits f v \<longleftrightarrow> 0 \<le> v \<and> v < 256 ^ fmt_size f"

text \<open>
  \<open>struct.pack("<...", v1, ..., vk)\<close>: every value must fit its unsigned field, otherwise
  \<open>struct.error\<close> is raised; so is a wrong number of arguments.
\<close>

fun struct_pack :: "fmt list \<Rightarrow> int list \<Rightarrow> exn + bytes" where
  "struct_pack [] [] = Inr []"
| "struct_pack (f # fs) (v # vs) =
     (if fits f v
      then (case struct_pack fs vs of
              Inl e \<Rightarrow> Inl e
            | Inr bs \<Rightarrow> Inr (le_bytes (fmt_size f) v @ bs))
      else Inl StructError)"
| "struct_pack _ _ = Inl StructError"

text \<open>The unsigned integer that a little-endian byte string denotes.\<close>

fun le_int :: "bytes \<Rightarrow> int" where
  "le_int [] = 0"
| "le_int (b # bs) = uint b + 256 * le_int bs"

text \<open>
  \<open>struct.unpack("<H" | "<I" | "<Q", buf)[0]\<close>: the buffer must have exactly the size of the
  field, otherwise \<open>struct.error\<close> is raised.
\<close>

definition struct_unpack :: "fmt \<Rightarrow> bytes \<Rightarrow> exn + int" where
  "struct_unpack f buf = (if length buf = fmt_size f then Inr (le_int buf) else Inl StructError)"

text \<open>Python slicing \<open>data[a:b]\<close> for \<open>0 \<le> a \<le> b\<close>: it never raises, it truncates.\<close>

definition slice :: "bytes \<Rightarrow> nat \<Rightarrow> nat \<Rightarrow> bytes" where
  "slice data a b = take (b - a) (drop a data)"

text \<open>
  \<open>hashlib.blake2b(digest_size=32, key=k)\<close> is a library function, not code of the
  repository: the keyed 32-byte digest is a parameter \<open>B\<close> of the model, a function of the
  key and of the whole message. A hasher object is its key and the bytes fed so far;
  \<open>update\<close> appends and \<open>digest\<close> applies \<open>B\<close>.
\<close>

type_synonym keyed_hash = "bytes \<Rightarrow> bytes \<Rightarrow> bytes"

record hasher =
  hasher_key :: bytes
  hasher_fed :: bytes

definition blake2b_new :: "bytes \<Rightarrow> hasher" where
  "blake2b_new k = \<lparr>hasher_key = k, hasher_fed = []\<rparr>"

definition hasher_update :: "hasher \<Rightarrow> bytes \<Rightarrow> hasher" where
  "hasher_update hs bs = hs\<lparr>hasher_fed := hasher_fed hs @ bs\<rparr>"

definition digest :: "keyed_hash \<Rightarrow> hasher \<Rightarrow> bytes" where
  "digest B hs = B (hasher_key hs) (hasher_fed hs)"

text \<open>The ASCII keys \<open>b"BlockHash"\<close> and \<open>b"TransactionHash"\<close>.\<close>

definition K_BLOCK :: bytes where
  "K_BLOCK = [0x42, 0x6c, 0x6f, 0x63, 0x6b, 0x48, 0x61, 0x73, 0x68]"

definition K_TX :: bytes where
  "K_TX = [0x54, 0x72, 0x61, 0x6e, 0x73, 0x61, 0x63, 0x74, 0x69, 0x6f, 0x6e,
           0x48, 0x61, 0x73, 0x68]"

section \<open>Headers as the hasher and the walker see them\<close>

text \<open>
  \<open>header_hash\<close> reads \<open>h.parents\<close> as a list of objects with an attribute
  \<open>parentHashes\<close>, itself a list of objects with an attribute \<open>hash\<close>
  (\<open>ParentLevel\<close>; this is what \<open>CheckpointStore\<close> builds). The RocksDB store hands over
  plain Python lists of byte strings instead (\<open>PlainList\<close>), on which the attribute
  access raises \<open>AttributeError\<close>.
\<close>

datatype parent_level = ParentLevel (parentHashes: "bytes list") | PlainList "bytes list"

text \<open>
  The record of \<open>HeaderData\<close> (\<open>store_rust.py\<close>). Its float field \<open>difficulty\<close>, which
  the constructor computes from \<open>bits\<close> without raising, is left out.
\<close>

record HeaderData =
  hd_hashMerkleRoot :: bytes
  hd_acceptedIDMerkleRoot :: bytes
  hd_utxoCommitment :: bytes
  hd_pruningPoint :: bytes
  hd_timeInMilliseconds :: int
  hd_bits :: int
  hd_nonce :: int
  hd_daaScore :: int
  hd_blueWork :: bytes
  hd_blueScore :: int
  hd_version :: int
  hd_parents :: "bytes list list"

text \<open>
  The header objects returned by \<open>get_raw_header\<close>: the attributes that \<open>header_hash\<close>
  and the driver read (\<open>x.hash\<close> of the wrapper objects is the byte string itself), and
  \<open>header_data\<close>, which only a \<open>ParsedHeader\<close> has (\<open>hasattr\<close> is \<open>header_data \<noteq> None\<close>).
\<close>

record raw_header =
  version :: int
  parents :: "parent_level list"
  hashMerkleRoot :: bytes
  acceptedIDMerkleRoot :: bytes
  utxoCommitment :: bytes
  timeInMilliseconds :: int
  bits :: int
  nonce :: int
  daaScore :: int
  blueScore :: int
  blueWork :: bytes
  pruningPoint :: bytes
  header_data :: "HeaderData option"

section \<open>header_hash\<close>

text \<open>The loop over \<open>h.parents\<close>: per level the packed inner count, then each parent hash.\<close>

fun hash_levels :: "hasher \<Rightarrow> parent_level list \<Rightarrow> exn + hasher" where
  "hash_levels hs [] = Inr hs"
| "hash_levels hs (PlainList xs # ls) = Inl AttributeError"
| "hash_levels hs (ParentLevel ps # ls) =
     (case struct_pack [Fmt_Q] [int (length ps)] of
        Inl e \<Rightarrow> Inl e
      | Inr p \<Rightarrow> hash_levels (foldl hasher_update (hasher_update hs p) ps) ls)"

definition header_hash :: "keyed_hash \<Rightarrow> raw_header \<Rightarrow> exn + bytes" where
  "header_hash B h =
     (let hs0 = blake2b_new K_BLOCK in
      case struct_pack [Fmt_H, Fmt_Q] [version h, int (length (parents h))] of
        Inl e \<Rightarrow> Inl e
      | Inr p1 \<Rightarrow>
     (case hash_levels (hasher_update hs0 p1) (parents h) of
        Inl e \<Rightarrow> Inl e
      | Inr hs1 \<Rightarrow>
     (let hs2 = hasher_update hs1 (hashMerkleRoot h);
          hs3 = hasher_update hs2 (acceptedIDMerkleRoot h);
          hs4 = hasher_update hs3 (utxoCommitment h) in
      case struct_pack [Fmt_Q, Fmt_I, Fmt_Q, Fmt_Q, Fmt_Q, Fmt_Q]
             [timeInMilliseconds h, bits h, nonce h, daaScore h, blueScore h,
              int (length (blueWork h))] of
        Inl e \<Rightarrow> Inl e
      | Inr p2 \<Rightarrow>
         (let hs5 = hasher_update hs4 p2;
              hs6 = hasher_update hs5 (blueWork h);
              hs7 = hasher_update hs6 (pruningPoint h)
          in Inr (digest B hs7)))))"

section \<open>The chain walker\<close>

text \<open>The lines that the code prints with \<open>print_error\<close>.\<close>

datatype message =
    HeaderNotFound bytes
  | HashMismatchAt bytes
  | TooManyIterations
  | GenesisHeaderNotFound
  | GenesisHeaderHashMismatch
  | GenesisCoinbaseMismatch
  | HashChainVerificationFailed
  | NoTipsFound
  | UtxoCommitmentMismatch
  | OriginalGenesisNotEmpty
  | CheckpointChainVerificationFailed
  | CheckpointHeaderNotFound
  | VerificationFailedWithError exn

text \<open>
  What a call of the walker does: it returns \<open>True\<close> after \<open>i\<close> links (\<open>Reached i\<close>),
  prints an error and returns \<open>False\<close> (\<open>WalkError\<close>), or lets an exception of
  \<open>header_hash\<close> escape (\<open>WalkRaised\<close>).
\<close>

datatype walk_result = Reached nat | WalkError message | WalkRaised exn

text \<open>
  The \<open>while True\<close> loop of \<open>assert_cryptographic_hash_chain_to_genesis\<close>, from the
  state (\<open>block_hash\<close>, \<open>i\<close>); \<open>get_raw_header\<close> is the store's method. The argument
  \<open>verbose\<close> only adds a printed line and is left out. The counter is checked after it
  was incremented, so the loop is never entered with a counter above 1000.
\<close>

function walk_loop ::
  "keyed_hash \<Rightarrow> (bytes \<Rightarrow> raw_header option) \<Rightarrow> bytes \<Rightarrow> bytes \<Rightarrow> nat \<Rightarrow> walk_result"
where
  "walk_loop B get_raw_header block_hash genesis_hash i =
     (if block_hash = genesis_hash then Reached i
      else case get_raw_header block_hash of
        None \<Rightarrow> WalkError (HeaderNotFound block_hash)
      | Some header \<Rightarrow>
         (case header_hash B header of
            Inl e \<Rightarrow> WalkRaised e
          | Inr calculated_hash \<Rightarrow>
              if calculated_hash \<noteq> block_hash then WalkError (HashMismatchAt block_hash)
              else if i + 1 > 1000 then WalkError TooManyIterations
              else walk_loop B get_raw_header (pruningPoint header) genesis_hash (i + 1)))"
  by pat_completeness auto
termination
  by (relation "measure (\<lambda>(B, g, b, t, i). 1001 - i)") auto

declare walk_loop.simps [simp del]

definition assert_cryptographic_hash_chain_to_genesis ::
  "keyed_hash \<Rightarrow> (bytes \<Rightarrow> raw_header option) \<Rightarrow> bytes \<Rightarrow> bytes \<Rightarrow> walk_result"
where
  "assert_cryptographic_hash_chain_to_genesis B get_raw_header block_hash genesis_hash =
     walk_loop B get_raw_header block_hash genesis_hash 0"

section \<open>The bincode header decoder (store_rust.py)\<close>

text \<open>
  What \<open>deserialize_bincode_header\<close> does: it returns \<open>None\<close> at the guard before
  the \<open>try\<close> block (\<open>NotParsed\<close>), it catches an exception of the parsing code, prints
  it and returns \<open>None\<close> (\<open>ParseFailed\<close>), or it returns a \<open>HeaderData\<close> (\<open>Parsed\<close>).
\<close>

datatype decode_result = NotParsed | ParseFailed exn | Parsed HeaderData

fun returned_header :: "decode_result \<Rightarrow> HeaderData option" where
  "returned_header NotParsed = None"
| "returned_header (ParseFailed e) = None"
| "returned_header (Parsed h) = Some h"

text \<open>
  The inner loop \<open>for _ in range(inner_len)\<close>: each round appends the slice
  \<open>data[pos:pos+32]\<close> and advances \<open>pos\<close> by 32. The slice does not raise when it runs
  past the end of the data: a count beyond the data yields short or empty slices, and
  the failure comes with the next integer that is unpacked.
\<close>

fun read_hashes :: "nat \<Rightarrow> bytes \<Rightarrow> nat \<Rightarrow> bytes list \<times> nat" where
  "read_hashes 0 data pos = ([], pos)"
| "read_hashes (Suc n) data pos =
     (case read_hashes n data (pos + 32) of
        (inner_hashes, pos') \<Rightarrow> (slice data pos (pos + 32) # inner_hashes, pos'))"

text \<open>The outer loop \<open>for _ in range(parents_outer_len)\<close>.\<close>

fun read_levels :: "nat \<Rightarrow> bytes \<Rightarrow> nat \<Rightarrow> exn + (bytes list list \<times> nat)" where
  "read_levels 0 data pos = Inr ([], pos)"
| "read_levels (Suc n) data pos =
     (case struct_unpack Fmt_Q (slice data pos (pos + 8)) of
        Inl e \<Rightarrow> Inl e
      | Inr inner_len \<Rightarrow>
         (case read_hashes (nat inner_len) data (pos + 8) of
            (inner_hashes, pos1) \<Rightarrow>
              (case read_levels n data pos1 of
                 Inl e \<Rightarrow> Inl e
               | Inr (levels, pos2) \<Rightarrow> Inr (inner_hashes # levels, pos2))))"

text \<open>
  The fields after the parents, read from position \<open>pos\<close> on; \<open>version\<close> and
  \<open>parents_by_level\<close> have been read before.
\<close>

definition read_tail :: "bytes \<Rightarrow> int \<Rightarrow> bytes list list \<Rightarrow> nat \<Rightarrow> exn + HeaderData" where
  "read_tail data ver parents_by_level pos =
     (let hash_merkle_root = slice data pos (pos + 32);
          accepted_id_merkle_root = slice data (pos + 32) (pos + 64);
          utxo_commitment = slice data (pos + 64) (pos + 96) in
      case struct_unpack Fmt_Q (slice data (pos + 96) (pos + 104)) of
        Inl e \<Rightarrow> Inl e
      | Inr timestamp \<Rightarrow>
     (case struct_unpack Fmt_I (slice data (pos + 104) (pos + 108)) of
        Inl e \<Rightarrow> Inl e
      | Inr bits_field \<Rightarrow>
     (case struct_unpack Fmt_Q (slice data (pos + 108) (pos + 116)) of
        Inl e \<Rightarrow> Inl e
      | Inr nonce_field \<Rightarrow>
     (case struct_unpack Fmt_Q (slice data (pos + 116) (pos + 124)) of
        Inl e \<Rightarrow> Inl e
      | Inr daa_score \<Rightarrow>
     (let blue_work = slice data (pos + 124) (pos + 148) in
      case struct_unpack Fmt_Q (slice data (pos + 148) (pos + 156)) of
        Inl e \<Rightarrow> Inl e
      | Inr blue_score \<Rightarrow>
     (let pruning_point = slice data (pos + 156) (pos + 188) in
      Inr \<lparr>hd_hashMerkleRoot = hash_merkle_root,
           hd_acceptedIDMerkleRoot = accepted_id_merkle_root,
           hd_utxoCommitment = utxo_commitment,
           hd_pruningPoint = pruning_point,
           hd_timeInMilliseconds = timestamp,
           hd_bits = bits_field,
           hd_nonce = nonce_field,
           hd_daaScore = daa_score,
           hd_blueWork = blue_work,
           hd_blueScore = blue_score,
           hd_version = ver,
           hd_parents = parents_by_level\<rparr>))))))"

text \<open>The body of the \<open>try\<close> block: the stored hash (32 bytes, unused), version, parents, tail.\<close>

definition parse_header_fields :: "bytes \<Rightarrow> exn + HeaderData" where
  "parse_header_fields data =
     (case struct_unpack Fmt_H (slice data 32 34) of
        Inl e \<Rightarrow> Inl e
      | Inr ver \<Rightarrow>
     (case struct_unpack Fmt_Q (slice data 34 42) of
        Inl e \<Rightarrow> Inl e
      | Inr parents_outer_len \<Rightarrow>
     (case read_levels (nat parents_outer_len) data 42 of
        Inl e \<Rightarrow> Inl e
      | Inr (parents_by_level, pos) \<Rightarrow> read_tail data ver parents_by_level pos)))"

text \<open>The argument is \<open>None\<close> or a byte string.\<close>

definition deserialize_bincode_header :: "bytes option \<Rightarrow> decode_result" where
  "deserialize_bincode_header data =
     (case data of
        None \<Rightarrow> NotParsed
      | Some d \<Rightarrow>
          if d = [] \<or> length d < 100 then NotParsed
          else (case parse_header_fields d of
                  Inl e \<Rightarrow> ParseFailed e
                | Inr h \<Rightarrow> Parsed h))"

section \<open>The RocksDB store (store_rust.py)\<close>

text \<open>
  The state of a \<open>Store\<close> object: whether the database was opened, the database (a map
  from keys to values; \<open>None\<close> when it was not opened), and the cache \<open>headers\<close>.
\<close>

record store =
  db_available :: bool
  db :: "(bytes \<rightharpoonup> bytes) option"
  headers :: "bytes \<rightharpoonup> HeaderData"

definition HEADERS_SELECTED_TIP :: byte where "HEADERS_SELECTED_TIP = 7"
definition HEADERS :: byte where "HEADERS = 8"
definition PRUNING_POINT :: byte where "PRUNING_POINT = 13"
definition TIPS :: byte where "TIPS = 24"

definition build_key :: "byte \<Rightarrow> bytes list \<Rightarrow> bytes" where
  "build_key prefix components = foldl (@) [prefix] components"

text \<open>The wrapper classes \<open>ParsedHeader\<close> and \<open>RawHeader\<close> of \<open>get_raw_header\<close>.\<close>

definition ParsedHeader :: "HeaderData \<Rightarrow> raw_header" where
  "ParsedHeader d =
     \<lparr>version = hd_version d,
      parents = map PlainList (hd_parents d),
      hashMerkleRoot = hd_hashMerkleRoot d,
      acceptedIDMerkleRoot = hd_acceptedIDMerkleRoot d,
      utxoCommitment = hd_utxoCommitment d,
      timeInMilliseconds = hd_timeInMilliseconds d,
      bits = hd_bits d,
      nonce = hd_nonce d,
      daaScore = hd_daaScore d,
      blueScore = hd_blueScore d,
      blueWork = hd_blueWork d,
      pruningPoint = hd_pruningPoint d,
      header_data = Some d\<rparr>"

definition RawHeader :: raw_header where
  "RawHeader =
     \<lparr>version = 0, parents = [], hashMerkleRoot = [], acceptedIDMerkleRoot = [],
      utxoCommitment = [], timeInMilliseconds = 0, bits = 0, nonce = 0, daaScore = 0,
      blueScore = 0, blueWork = [], pruningPoint = [], header_data = None\<rparr>"

definition get_raw_header :: "store \<Rightarrow> bytes \<Rightarrow> raw_header option" where
  "get_raw_header s block_hash =
     (if \<not> db_available s then None
      else case db s of
        None \<Rightarrow> None
      | Some d \<Rightarrow>
         (case d (build_key HEADERS [block_hash]) of
            None \<Rightarrow> None
          | Some header_bytes \<Rightarrow>
             (case returned_header (deserialize_bincode_header (Some header_bytes)) of
                Some hdata \<Rightarrow> Some (ParsedHeader hdata)
              | None \<Rightarrow> Some RawHeader)))"

text \<open>
  The loop of \<open>tips\<close> over \<open>range(tips_count)\<close>: it appends complete 32-byte hashes and
  breaks at the first one that does not fit.
\<close>

fun read_tips :: "nat \<Rightarrow> bytes \<Rightarrow> nat \<Rightarrow> bytes list" where
  "read_tips 0 tips_bytes pos = []"
| "read_tips (Suc n) tips_bytes pos =
     (if pos + 32 \<le> length tips_bytes
      then slice tips_bytes pos (pos + 32) # read_tips n tips_bytes (pos + 32)
      else [])"

definition tips :: "store \<Rightarrow> bytes list \<times> bytes" where
  "tips s =
     (if \<not> db_available s then ([], [])
      else case db s of
        None \<Rightarrow> ([], [])
      | Some d \<Rightarrow>
         (let hst_bytes = d (build_key HEADERS_SELECTED_TIP []);
              tips_bytes = d (build_key TIPS []);
              hst_hash = (case hst_bytes of
                            None \<Rightarrow> replicate 32 0
                          | Some hb \<Rightarrow> if length hb \<ge> 32 then slice hb 0 32 else hb) in
          case tips_bytes of
            None \<Rightarrow> ([], hst_hash)
          | Some tb \<Rightarrow>
              if length tb \<ge> 8
              then (case struct_unpack Fmt_Q (slice tb 0 8) of
                      Inl e \<Rightarrow> ((if length hst_hash = 32 then [hst_hash] else []), hst_hash)
                    | Inr tips_count \<Rightarrow> (read_tips (nat tips_count) tb 8, hst_hash))
              else ([], hst_hash)))"

definition pruning_point :: "store \<Rightarrow> bytes" where
  "pruning_point s =
     (if \<not> db_available s then []
      else case db s of
        None \<Rightarrow> []
      | Some d \<Rightarrow>
         (case d (build_key PRUNING_POINT []) of
            None \<Rightarrow> []
          | Some pp_bytes \<Rightarrow> if length pp_bytes \<ge> 32 then slice pp_bytes 0 32 else pp_bytes))"

text \<open>The items of a parents entry, whatever its representation.\<close>

fun level_items :: "parent_level \<Rightarrow> bytes list" where
  "level_items (ParentLevel ps) = ps"
| "level_items (PlainList xs) = xs"

text \<open>
  \<open>get_header_data\<close> reads and writes the cache: it returns its result and the store
  after the call.
\<close>

definition get_header_data :: "store \<Rightarrow> bytes \<Rightarrow> HeaderData option \<times> store" where
  "get_header_data s block_hash =
     (case headers s block_hash of
        Some cached \<Rightarrow> (Some cached, s)
      | None \<Rightarrow>
         (case get_raw_header s block_hash of
            None \<Rightarrow> (None, s)
          | Some rh \<Rightarrow>
             (case header_data rh of
                Some hdata \<Rightarrow> (Some hdata, s\<lparr>headers := (headers s)(block_hash \<mapsto> hdata)\<rparr>)
              | None \<Rightarrow>
                 (let hdata =
                        \<lparr>hd_hashMerkleRoot = hashMerkleRoot rh,
                         hd_acceptedIDMerkleRoot = acceptedIDMerkleRoot rh,
                         hd_utxoCommitment = utxoCommitment rh,
                         hd_pruningPoint = pruningPoint rh,
                         hd_timeInMilliseconds = timeInMilliseconds rh,
                         hd_bits = bits rh,
                         hd_nonce = nonce rh,
                         hd_daaScore = daaScore rh,
                         hd_blueWork = blueWork rh,
                         hd_blueScore = blueScore rh,
                         hd_version = version rh,
                         hd_parents = map level_items (parents rh)\<rparr>
                  in (Some hdata, s\<lparr>headers := (headers s)(block_hash \<mapsto> hdata)\<rparr>)))))"

section \<open>The checkpoint store (store_checkpoint.py)\<close>

text \<open>
  The file \<open>checkpoint_data.json\<close>: absent, not loadable (the constructor of
  \<open>CheckpointStore\<close> raises), or a \<open>headers_chain\<close>, given as the list of its entries
  with the hexadecimal strings already decoded: the key \<open>hash\<close> and the header object.
\<close>

datatype checkpoint_file = Absent | Unloadable | HeadersChain "(bytes \<times> raw_header) list"

text \<open>The constructor fills the dictionary in list order, so a later entry replaces an earlier one.\<close>

definition CheckpointStore :: "(bytes \<times> raw_header) list \<Rightarrow> (bytes \<rightharpoonup> raw_header)" where
  "CheckpointStore headers_chain = foldl (\<lambda>m (k, h). m(k \<mapsto> h)) Map.empty headers_chain"

definition checkpoint_get_raw_header :: "(bytes \<rightharpoonup> raw_header) \<Rightarrow> bytes \<Rightarrow> raw_header option" where
  "checkpoint_get_raw_header cs block_hash = cs block_hash"

section \<open>transaction_hash\<close>

record tx_input =
  previousOutpoint_transactionId :: bytes
  previousOutpoint_index :: int
  signatureScript :: bytes
  sequence :: int

record tx_output =
  output_value :: int
  scriptPublicKey_version :: int
  scriptPublicKey_script :: bytes

record transaction =
  tx_version :: int
  inputs :: "tx_input list"
  outputs :: "tx_output list"
  lockTime :: int
  subnetworkId :: bytes
  gas :: int
  payload :: bytes

fun hash_inputs :: "hasher \<Rightarrow> tx_input list \<Rightarrow> exn + hasher" where
  "hash_inputs hs [] = Inr hs"
| "hash_inputs hs (ti # tis) =
     (let hs1 = hasher_update hs (previousOutpoint_transactionId ti) in
      case struct_pack [Fmt_I, Fmt_Q]
             [previousOutpoint_index ti, int (length (signatureScript ti))] of
        Inl e \<Rightarrow> Inl e
      | Inr p \<Rightarrow>
         (let hs2 = hasher_update (hasher_update hs1 p) (signatureScript ti) in
          case struct_pack [Fmt_Q] [sequence ti] of
            Inl e \<Rightarrow> Inl e
          | Inr q \<Rightarrow> hash_inputs (hasher_update hs2 q) tis))"

fun hash_outputs :: "hasher \<Rightarrow> tx_output list \<Rightarrow> exn + hasher" where
  "hash_outputs hs [] = Inr hs"
| "hash_outputs hs (to # tos) =
     (case struct_pack [Fmt_Q, Fmt_H, Fmt_Q]
             [output_value to, scriptPublicKey_version to,
              int (length (scriptPublicKey_script to))] of
        Inl e \<Rightarrow> Inl e
      | Inr p \<Rightarrow>
          hash_outputs (hasher_update (hasher_update hs p) (scriptPublicKey_script to)) tos)"

definition transaction_hash :: "keyed_hash \<Rightarrow> transaction \<Rightarrow> exn + bytes" where
  "transaction_hash B t =
     (let hs0 = blake2b_new K_TX in
      case struct_pack [Fmt_H, Fmt_Q] [tx_version t, int (length (inputs t))] of
        Inl e \<Rightarrow> Inl e
      | Inr p1 \<Rightarrow>
     (case hash_inputs (hasher_update hs0 p1) (inputs t) of
        Inl e \<Rightarrow> Inl e
      | Inr hs1 \<Rightarrow>
     (case struct_pack [Fmt_Q] [int (length (outputs t))] of
        Inl e \<Rightarrow> Inl e
      | Inr p2 \<Rightarrow>
     (case hash_outputs (hasher_update hs1 p2) (outputs t) of
        Inl e \<Rightarrow> Inl e
      | Inr hs2 \<Rightarrow>
     (case struct_pack [Fmt_Q] [lockTime t] of
        Inl e \<Rightarrow> Inl e
      | Inr p3 \<Rightarrow>
     (let hs3 = hasher_update (hasher_update hs2 p3) (subnetworkId t) in
      case struct_pack [Fmt_Q, Fmt_Q] [gas t, int (length (payload t))] of
        Inl e \<Rightarrow> Inl e
      | Inr p4 \<Rightarrow>
          Inr (digest B (hasher_update (hasher_update hs3 p4) (payload t)))))))))"

section \<open>The driver verify_genesis\<close>

definition genesis_hash :: bytes where
  "genesis_hash =
    [
     0x58, 0xc2, 0xd4, 0x19, 0x9e, 0x21, 0xf9, 0x10,
     0xd1, 0x57, 0x1d, 0x11, 0x49, 0x69, 0xce, 0xce,
     0xf4, 0x8f, 0x09, 0xf9, 0x34, 0xd4, 0x2c, 0xcb,
     0x6a, 0x28, 0x1a, 0x15, 0x86, 0x8f, 0x29, 0x99]"

definition genesis_tx_payload :: bytes where
  "genesis_tx_payload =
    [
     0x00, 0x00, 0x00, 0x00, 0x00, 0x00, 0x00, 0x00,
     0x00, 0xe1, 0xf5, 0x05, 0x00, 0x00, 0x00, 0x00,
     0x00, 0x00, 0x01, 0x00, 0xd7, 0x95, 0xd7, 0x9e,
     0xd7, 0x94, 0x20, 0xd7, 0x93, 0xd7, 0x99, 0x20,
     0xd7, 0xa2, 0xd7, 0x9c, 0xd7, 0x99, 0xd7, 0x9a,
     0x20, 0xd7, 0x95, 0xd7, 0xa2, 0xd7, 0x9c, 0x20,
     0xd7, 0x90, 0xd7, 0x97, 0xd7, 0x99, 0xd7, 0x9a,
     0x20, 0xd7, 0x99, 0xd7, 0x99, 0xd7, 0x98, 0xd7,
     0x91, 0x20, 0xd7, 0x91, 0xd7, 0xa9, 0xd7, 0x90,
     0xd7, 0xa8, 0x20, 0xd7, 0x9b, 0xd7, 0xa1, 0xd7,
     0xa4, 0xd7, 0x90, 0x20, 0xd7, 0x95, 0xd7, 0x93,
     0xd7, 0x94, 0xd7, 0x91, 0xd7, 0x94, 0x20, 0xd7,
     0x9c, 0xd7, 0x9e, 0xd7, 0xa2, 0xd7, 0x91, 0xd7,
     0x93, 0x20, 0xd7, 0x9b, 0xd7, 0xa8, 0xd7, 0xa2,
     0xd7, 0x95, 0xd7, 0xaa, 0x20, 0xd7, 0x90, 0xd7,
     0x9c, 0xd7, 0x94, 0xd7, 0x9b, 0xd7, 0x9d, 0x20,
     0xd7, 0xaa, 0xd7, 0xa2, 0xd7, 0x91, 0xd7, 0x93,
     0xd7, 0x95, 0xd7, 0x9f, 0x00, 0x00, 0x00, 0x00,
     0x00, 0x00, 0x00, 0x00, 0x00, 0x0b, 0x1f, 0x8e,
     0x1c, 0x17, 0xb0, 0x13, 0x3d, 0x43, 0x91, 0x74,
     0xe5, 0x2e, 0xfb, 0xb0, 0xc4, 0x1c, 0x35, 0x83,
     0xa8, 0xaa, 0x66, 0xb0, 0x0f, 0xca, 0x37, 0xca,
     0x66, 0x7c, 0x2d, 0x55, 0x0a, 0x6c, 0x44, 0x16,
     0xda, 0xd9, 0x71, 0x7e, 0x50, 0x92, 0x71, 0x28,
     0xc4, 0x24, 0xfa, 0x4e, 0xdb, 0xeb, 0xc4, 0x36,
     0xab, 0x13, 0xae, 0xef]"

definition genesis_subnetwork_id :: bytes where
  "genesis_subnetwork_id =
    [
     0x01, 0x00, 0x00, 0x00, 0x00, 0x00, 0x00, 0x00,
     0x00, 0x00, 0x00, 0x00, 0x00, 0x00, 0x00, 0x00,
     0x00, 0x00, 0x00, 0x00]"

definition checkpoint_hash :: bytes where
  "checkpoint_hash =
    [
     0x0f, 0xca, 0x37, 0xca, 0x66, 0x7c, 0x2d, 0x55,
     0x0a, 0x6c, 0x44, 0x16, 0xda, 0xd9, 0x71, 0x7e,
     0x50, 0x92, 0x71, 0x28, 0xc4, 0x24, 0xfa, 0x4e,
     0xdb, 0xeb, 0xc4, 0x36, 0xab, 0x13, 0xae, 0xef]"

definition original_genesis :: bytes where
  "original_genesis =
    [
     0xca, 0xeb, 0x97, 0x96, 0x0a, 0x16, 0x0c, 0x21,
     0x1a, 0x6b, 0x21, 0x96, 0xbd, 0x78, 0x39, 0x9f,
     0xd4, 0xc4, 0xcc, 0x5b, 0x50, 0x9f, 0x55, 0xc1,
     0x2c, 0x8a, 0x7d, 0x81, 0x5f, 0x75, 0x36, 0xea]"

definition empty_muhash :: bytes where
  "empty_muhash =
    [
     0x54, 0x4e, 0xb3, 0x14, 0x2c, 0x00, 0x0f, 0x0a,
     0xd2, 0xc7, 0x6a, 0xc4, 0x1f, 0x42, 0x22, 0xab,
     0xba, 0xba, 0xbe, 0xd8, 0x30, 0xee, 0xaf, 0xee,
     0x4b, 0x6d, 0xc5, 0x6b, 0x52, 0xd5, 0xca, 0xc0]"

definition genesis_coinbase_tx :: transaction where
  "genesis_coinbase_tx =
     \<lparr>tx_version = 0, inputs = [], outputs = [], lockTime = 0,
      subnetworkId = genesis_subnetwork_id, gas = 0, payload = genesis_tx_payload\<rparr>"

text \<open>
  The two methods of the current store that the driver calls. For \<open>--node-type rust\<close>
  they are those of the RocksDB store above; the store module of the Go node is not part
  of the sources at hand.
\<close>

record store_methods =
  tips_method :: "bytes list \<times> bytes"
  get_raw_header_method :: "bytes \<Rightarrow> raw_header option"

definition rust_store :: "store \<Rightarrow> store_methods" where
  "rust_store s = \<lparr>tips_method = tips s, get_raw_header_method = get_raw_header s\<rparr>"

text \<open>
  Step 7 of \<open>verify_genesis\<close> (from \<open>checkpoint_json_path\<close> to the summary): the value
  returned and the errors printed. \<open>pre_checkpoint_datadir\<close> only selects what is printed
  when the JSON file is absent.
\<close>

definition verify_genesis_step7 ::
  "keyed_hash \<Rightarrow> raw_header \<Rightarrow> checkpoint_file \<Rightarrow> string option \<Rightarrow> bool \<times> message list"
where
  "verify_genesis_step7 B genesis_header checkpoint_json pre_checkpoint_datadir =
     (case checkpoint_json of
        Absent \<Rightarrow> (True, [])
      | Unloadable \<Rightarrow> (False, [VerificationFailedWithError LoadError])
      | HeadersChain chain \<Rightarrow>
         (let pre_checkpoint_store = CheckpointStore chain in
          case checkpoint_get_raw_header pre_checkpoint_store checkpoint_hash of
            None \<Rightarrow> (True, [CheckpointHeaderNotFound])
          | Some checkpoint_header \<Rightarrow>
             (let errs1 = (if utxoCommitment genesis_header = utxoCommitment checkpoint_header
                           then [] else [UtxoCommitmentMismatch]) in
              case assert_cryptographic_hash_chain_to_genesis B
                     (checkpoint_get_raw_header pre_checkpoint_store)
                     checkpoint_hash original_genesis of
                WalkRaised e \<Rightarrow> (False, errs1 @ [VerificationFailedWithError e])
              | WalkError m \<Rightarrow> (True, errs1 @ [m, CheckpointChainVerificationFailed])
              | Reached n \<Rightarrow>
                 (case checkpoint_get_raw_header pre_checkpoint_store original_genesis of
                    None \<Rightarrow> (True, errs1)
                  | Some original_genesis_header \<Rightarrow>
                      if utxoCommitment original_genesis_header = empty_muhash
                      then (True, errs1)
                      else (True, errs1 @ [OriginalGenesisNotEmpty])))))"

text \<open>
  \<open>verify_genesis\<close>: the value returned and the errors printed with \<open>print_error\<close>, in
  order. An exception raised inside the \<open>try\<close> block is caught, printed and turned into
  \<open>False\<close>. The informational output and \<open>verbose\<close> are left out.
\<close>

definition verify_genesis ::
  "keyed_hash \<Rightarrow> store_methods \<Rightarrow> checkpoint_file \<Rightarrow> string option \<Rightarrow> bool \<times> message list"
where
  "verify_genesis B current_store checkpoint_json pre_checkpoint_datadir =
     (let tips_list = fst (tips_method current_store);
          hst = snd (tips_method current_store) in
      case get_raw_header_method current_store genesis_hash of
        None \<Rightarrow> (False, [GenesisHeaderNotFound])
      | Some genesis_header \<Rightarrow>
     (case header_hash B genesis_header of
        Inl e \<Rightarrow> (False, [VerificationFailedWithError e])
      | Inr hh \<Rightarrow>
          if hh \<noteq> genesis_hash then (False, [GenesisHeaderHashMismatch])
          else
     (case transaction_hash B genesis_coinbase_tx of
        Inl e \<Rightarrow> (False, [VerificationFailedWithError e])
      | Inr calc_hash \<Rightarrow>
          if calc_hash \<noteq> hashMerkleRoot genesis_header then (False, [GenesisCoinbaseMismatch])
          else
     (let chain_tip = (case tips_list of [] \<Rightarrow> hst | t # ts \<Rightarrow> t) in
      if chain_tip = [] then (False, [NoTipsFound])
      else
     (case assert_cryptographic_hash_chain_to_genesis B
             (get_raw_header_method current_store) chain_tip genesis_hash of
        WalkRaised e \<Rightarrow> (False, [VerificationFailedWithError e])
      | WalkError m \<Rightarrow> (False, [m, HashChainVerificationFailed])
      | Reached n \<Rightarrow>
          verify_genesis_step7 B genesis_header checkpoint_json pre_checkpoint_datadir)))))"

section \<open>The statements of the specification\<close>

text \<open>
  The bytes that one parent level contributes to the preimage of the header hash: the
  inner count as u64 LE, then the parent hashes.
\<close>

definition level_bytes :: "parent_level \<Rightarrow> bytes" where
  "level_bytes l = le_bytes 8 (int (length (parentHashes l))) @ concat (parentHashes l)"

definition level_ok :: "parent_level \<Rightarrow> bool" where
  "level_ok l \<longleftrightarrow> is_ParentLevel l \<and> fits Fmt_Q (int (length (parentHashes l)))"

text \<open>
  A header object whose attributes have the types the hasher expects: the parents are
  objects with \<open>parentHashes\<close> and every number fits the field it is packed into.
\<close>

definition header_fields_fit :: "raw_header \<Rightarrow> bool" where
  "header_fields_fit h \<longleftrightarrow>
     fits Fmt_H (version h) \<and> fits Fmt_Q (int (length (parents h))) \<and>
     list_all level_ok (parents h) \<and>
     fits Fmt_Q (timeInMilliseconds h) \<and> fits Fmt_I (bits h) \<and> fits Fmt_Q (nonce h) \<and>
     fits Fmt_Q (daaScore h) \<and> fits Fmt_Q (blueScore h) \<and>
     fits Fmt_Q (int (length (blueWork h)))"

text \<open>The preimage of the header hash as section 4.3 of the specification lists it.\<close>

definition spec_header_preimage :: "raw_header \<Rightarrow> bytes" where
  "spec_header_preimage h =
     le_bytes 2 (version h) @ le_bytes 8 (int (length (parents h))) @
     concat (map level_bytes (parents h)) @
     hashMerkleRoot h @ acceptedIDMerkleRoot h @ utxoCommitment h @
     le_bytes 8 (timeInMilliseconds h) @ le_bytes 4 (bits h) @ le_bytes 8 (nonce h) @
     le_bytes 8 (daaScore h) @ le_bytes 8 (blueScore h) @
     le_bytes 8 (int (length (blueWork h))) @ blueWork h @ pruningPoint h"

text \<open>
  A list of keys is a verified chain of a store: every key but the last has a header,
  the hash of that header is the key, and its pruning point is the next key.
\<close>

fun chain_ok :: "keyed_hash \<Rightarrow> (bytes \<Rightarrow> raw_header option) \<Rightarrow> bytes list \<Rightarrow> bool" where
  "chain_ok B g [] = True"
| "chain_ok B g [k] = True"
| "chain_ok B g (k # k' # ks) =
     (case g k of
        None \<Rightarrow> False
      | Some H \<Rightarrow> header_hash B H = Inr k \<and> pruningPoint H = k' \<and> chain_ok B g (k' # ks))"

fun raised :: "walk_result \<Rightarrow> bool" where
  "raised (WalkRaised e) = True"
| "raised (WalkError m) = False"
| "raised (Reached n) = False"

section \<open>Small stores on which the definitions are run\<close>

definition empty_store :: store where
  "empty_store = \<lparr>db_available = True, db = Some Map.empty, headers = Map.empty\<rparr>"

definition store_of :: "(bytes \<times> bytes) list \<Rightarrow> store" where
  "store_of kvs = \<lparr>db_available = True, db = Some (map_of kvs), headers = Map.empty\<rparr>"

text \<open>
  A stand-in for the keyed digest, on which the walker and the driver can be run without
  the database of a node: the digest of a header without parents is its
  \<open>hashMerkleRoot\<close> (bytes 10 to 41 of the preimage), and every transaction hashes to
  \<open>genesis_hash\<close>.
\<close>

definition demo_hash :: keyed_hash where
  "demo_hash key msg = (if key = K_TX then genesis_hash else slice msg 10 42)"

definition demo_header :: "bytes \<Rightarrow> bytes \<Rightarrow> raw_header" where
  "demo_header k pp = RawHeader\<lparr>hashMerkleRoot := k, pruningPoint := pp\<rparr>"


text \<open>
  A serialized header of 230 bytes without parents whose \<open>hash_merkle_root\<close> is
  \<open>genesis_hash\<close>, and a database that stores it under the genesis key and names the
  genesis block as selected tip.
\<close>

definition demo_genesis_bytes :: bytes where
  "demo_genesis_bytes = replicate 32 0 @ [0, 0] @ replicate 8 0 @ genesis_hash @ replicate 156 0"

definition demo_store :: store where
  "demo_store = store_of [(HEADERS # genesis_hash, demo_genesis_bytes),
                          ([HEADERS_SELECTED_TIP], genesis_hash)]"

text \<open>Checkpoint stores: one link that verifies, one tampered header, a cycle of two.\<close>

definition good_chain :: "bytes \<Rightarrow> raw_header option" where
  "good_chain = checkpoint_get_raw_header
     (CheckpointStore [(checkpoint_hash, demo_header checkpoint_hash original_genesis)])"

definition tampered_chain :: "bytes \<Rightarrow> raw_header option" where
  "tampered_chain = checkpoint_get_raw_header
     (CheckpointStore [(checkpoint_hash, demo_header genesis_hash original_genesis)])"


definition tips_store :: store where
  "tips_store = store_of [([TIPS], le_bytes 8 2 @ checkpoint_hash @ original_genesis),
                          ([HEADERS_SELECTED_TIP], genesis_hash @ [9])]"

definition tips_only_store :: store where
  "tips_only_store = store_of [([TIPS], le_bytes 8 1 @ genesis_hash)]"

definition late_store :: store where
  "late_store = store_of [(HEADERS # genesis_hash, [0])]"

text \<open>
  A keyed digest that agrees with \<open>demo_hash\<close> on headers and gives every transaction
  the bytes of \<open>K_BLOCK\<close>: the genesis header of \<open>demo_store\<close> verifies under it and
  the coinbase transaction does not match its merkle root.
\<close>

definition mismatch_hash :: keyed_hash where
  "mismatch_hash key msg = (if key = K_TX then K_BLOCK else slice msg 10 42)"

definition pruning_store :: store where
  "pruning_store = store_of [([PRUNING_POINT], genesis_hash @ [1, 2, 3])]"

section \<open>Packing and the hasher\<close>

lemma length_le_bytes: "length (le_bytes n v) = n"
  by (simp add: le_bytes_def)

lemma le_bytes_Suc: "le_bytes (Suc n) v = word_of_int v # le_bytes n (v div 256)"
proof -
  have "[0..<Suc n] = 0 # map Suc [0..<n]"
    by (simp add: upt_conv_Cons map_Suc_upt del: upt_Suc)
  then show ?thesis
    by (simp add: le_bytes_def comp_def zdiv_zmult2_eq del: upt_Suc)
qed

text \<open>Unpacking what was packed gives the value back, up to the width of the field.\<close>

lemma le_int_le_bytes: "0 \<le> v \<Longrightarrow> le_int (le_bytes n v) = v mod 256 ^ n"
proof (induction n arbitrary: v)
  case 0
  then show ?case by (simp add: le_bytes_def)
next
  case (Suc n)
  have "0 \<le> v div 256" using Suc.prems by simp
  then have IH: "le_int (le_bytes n (v div 256)) = (v div 256) mod 256 ^ n" by (rule Suc.IH)
  have u: "uint (word_of_int v :: byte) = v mod 256"
    by (simp add: uint_word_of_int take_bit_eq_mod)
  have m: "v mod (256 * 256 ^ n) = 256 * (v div 256 mod 256 ^ n) + v mod 256"
    by (rule zmod_zmult2_eq) simp
  show ?case
    by (simp add: le_bytes_Suc IH u m)
qed

lemma unpack_pack_Q: "fits Fmt_Q v \<Longrightarrow> struct_unpack Fmt_Q (le_bytes 8 v) = Inr v"
  by (simp add: struct_unpack_def length_le_bytes le_int_le_bytes fits_def)

text \<open>Section 8 of the specification, endianness: the least significant byte comes first.\<close>

lemma le_bytes_endianness: "le_bytes 8 0x0102030405060708 = [8, 7, 6, 5, 4, 3, 2, 1]"
  by (simp add: le_bytes_def upt_rec)


lemma foldl_update_eq:
  "foldl hasher_update hs ps = hs\<lparr>hasher_fed := hasher_fed hs @ concat ps\<rparr>"
  by (induction ps arbitrary: hs) (simp_all add: hasher_update_def)

lemma hash_levels_ok:
  "list_all level_ok ls \<Longrightarrow>
   hash_levels hs ls = Inr (hs\<lparr>hasher_fed := hasher_fed hs @ concat (map level_bytes ls)\<rparr>)"
proof (induction ls arbitrary: hs)
  case Nil
  then show ?case by simp
next
  case (Cons l ls)
  then obtain ps where l: "l = ParentLevel ps" and f: "fits Fmt_Q (int (length ps))"
    by (cases l) (auto simp: level_ok_def)
  from Cons.prems have rest: "list_all level_ok ls" by simp
  show ?case
    by (simp add: l f Cons.IH[OF rest] foldl_update_eq hasher_update_def level_bytes_def)
qed

lemma header_hash_fit:
  "header_fields_fit h \<Longrightarrow> header_hash B h = Inr (B K_BLOCK (spec_header_preimage h))"
  by (simp add: header_hash_def header_fields_fit_def hash_levels_ok hasher_update_def
      blake2b_new_def digest_def spec_header_preimage_def)

text \<open>
  The header objects of the RocksDB store carry their parents as plain lists, so hashing
  one that has a parent level raises instead of returning a digest.
\<close>

lemma parsed_header_with_parents_raises:
  assumes "fits Fmt_H (hd_version d)" and "fits Fmt_Q (int (length (hd_parents d)))"
    and "hd_parents d \<noteq> []"
  shows "header_hash B (ParsedHeader d) = Inl AttributeError"
proof -
  from assms(3) obtain p ps where "hd_parents d = p # ps" by (cases "hd_parents d") auto
  with assms(1,2) show ?thesis
    by (simp add: header_hash_def ParsedHeader_def)
qed

lemma K_BLOCK_neq_K_TX: "K_BLOCK \<noteq> K_TX"
  by (simp add: K_BLOCK_def K_TX_def)

lemma demo_header_hash:
  "length k = 32 \<Longrightarrow> header_hash demo_hash (demo_header k pp) = Inr k"
proof -
  assume k: "length k = 32"
  have fit: "header_fields_fit (demo_header k pp)"
    by (simp add: header_fields_fit_def demo_header_def RawHeader_def fits_def)
  have pre: "spec_header_preimage (demo_header k pp) =
      (le_bytes 2 0 @ le_bytes 8 0) @ k @
      (le_bytes 8 0 @ le_bytes 4 0 @ le_bytes 8 0 @ le_bytes 8 0 @ le_bytes 8 0 @ le_bytes 8 0 @ pp)"
    by (simp add: spec_header_preimage_def demo_header_def RawHeader_def)
  have "slice (spec_header_preimage (demo_header k pp)) 10 42 = k"
    unfolding pre slice_def using k by (simp add: length_le_bytes)
  then show ?thesis
    by (simp add: header_hash_fit[OF fit] demo_hash_def K_BLOCK_neq_K_TX)
qed

lemma length_hashes:
  "length genesis_hash = 32" "length checkpoint_hash = 32" "length original_genesis = 32"
  by (simp_all add: genesis_hash_def checkpoint_hash_def original_genesis_def)

lemma distinct_hashes:
  "checkpoint_hash \<noteq> original_genesis" "genesis_hash \<noteq> checkpoint_hash"
  "checkpoint_hash \<noteq> genesis_hash" "original_genesis \<noteq> genesis_hash"
  by (simp_all add: genesis_hash_def checkpoint_hash_def original_genesis_def)

section \<open>The hash of a header\<close>





text \<open>The blue work of every header that the decoder returns has 24 bytes.\<close>

lemma read_tail_blue_work:
  "read_tail data ver ps pos = Inr h \<Longrightarrow> length (hd_blueWork h) = 24"
  by (auto simp: read_tail_def Let_def struct_unpack_def slice_def
      split: sum.splits if_splits)

lemma parsed_blue_work_24:
  "deserialize_bincode_header data = Parsed h \<Longrightarrow> length (hd_blueWork h) = 24"
  by (auto simp: deserialize_bincode_header_def parse_header_fields_def
      split: option.splits sum.splits if_splits prod.splits dest: read_tail_blue_work)

section \<open>The chain walker\<close>

lemma walk_loop_mismatch:
  "g k = Some H \<Longrightarrow> k \<noteq> t \<Longrightarrow> header_hash B H = Inr d \<Longrightarrow> d \<noteq> k \<Longrightarrow>
   walk_loop B g k t i = WalkError (HashMismatchAt k)"
  by (subst walk_loop.simps) simp

lemma walk_loop_reached:
  "walk_loop B g k t i = Reached n \<Longrightarrow>
   i \<le> n \<and> (\<exists>ks. length ks = n - i \<and> chain_ok B g (k # ks) \<and> last (k # ks) = t)"
proof (induction B g k t i rule: walk_loop.induct)
  case (1 B g k t i)
  show ?case
  proof (cases "k = t")
    case True
    with "1.prems" have "n = i" by (subst (asm) walk_loop.simps) simp
    with True show ?thesis by (intro conjI exI[of _ "[]"]) simp_all
  next
    case False
    from "1.prems" False obtain H where H: "g k = Some H"
      by (subst (asm) walk_loop.simps) (auto split: option.splits)
    from "1.prems" False H obtain d where d: "header_hash B H = Inr d"
      by (subst (asm) walk_loop.simps) (auto split: sum.splits)
    from "1.prems" False H d have dk: "d = k"
      by (subst (asm) walk_loop.simps) (auto split: if_splits)
    from "1.prems" False H d dk have i: "\<not> i + 1 > 1000"
      by (subst (asm) walk_loop.simps) (auto split: if_splits)
    from "1.prems" False H d dk i
    have next_call: "walk_loop B g (pruningPoint H) t (i + 1) = Reached n"
      by (subst (asm) walk_loop.simps) (auto split: if_splits)
    from "1.IH"[OF False H d _ _ next_call] dk i
    obtain ks where le: "i + 1 \<le> n" and ks: "length ks = n - (i + 1)"
      "chain_ok B g (pruningPoint H # ks)" "last (pruningPoint H # ks) = t"
      by auto
    show ?thesis
    proof (intro conjI exI[of _ "pruningPoint H # ks"])
      show "i \<le> n" using le by simp
      show "length (pruningPoint H # ks) = n - i" using le ks(1) by simp
      show "chain_ok B g (k # pruningPoint H # ks)" using H d dk ks(2) by simp
      show "last (k # pruningPoint H # ks) = t" using ks(3) by simp
    qed
  qed
qed




lemma good_chain_lookup:
  "good_chain checkpoint_hash = Some (demo_header checkpoint_hash original_genesis)"
  by (simp add: good_chain_def checkpoint_get_raw_header_def CheckpointStore_def)

lemma tampered_chain_lookup:
  "tampered_chain checkpoint_hash = Some (demo_header genesis_hash original_genesis)"
  by (simp add: tampered_chain_def checkpoint_get_raw_header_def CheckpointStore_def)


lemma good_chain_reached:
  "assert_cryptographic_hash_chain_to_genesis demo_hash good_chain
     checkpoint_hash original_genesis = Reached 1"
proof -
  have h: "header_hash demo_hash (demo_header checkpoint_hash original_genesis) =
      Inr checkpoint_hash"
    by (simp add: demo_header_hash length_hashes)
  have p: "pruningPoint (demo_header checkpoint_hash original_genesis) = original_genesis"
    by (simp add: demo_header_def)
  have "walk_loop demo_hash good_chain original_genesis original_genesis 1 = Reached 1"
    by (subst walk_loop.simps) simp
  then have "walk_loop demo_hash good_chain checkpoint_hash original_genesis 0 = Reached 1"
    by (subst walk_loop.simps) (simp add: good_chain_lookup h p distinct_hashes)
  then show ?thesis
    by (simp add: assert_cryptographic_hash_chain_to_genesis_def)
qed

text \<open>
  Claim C2. A header fetched under a key that is not the target and whose recomputed hash
  differs from the key ends the walk at once with the hash-mismatch error, whatever the
  counter and the rest of the store are; and a walk that succeeds after \<open>n\<close> links has
  visited \<open>n\<close> headers, each stored under its own hash and each pointing to the next key,
  the last one to the target.
\<close>

theorem walker_checks_every_header:
  "(g k = Some H \<and> k \<noteq> t \<and> header_hash B H = Inr d \<and> d \<noteq> k \<longrightarrow>
      walk_loop B g k t i = WalkError (HashMismatchAt k)) \<and>
   (assert_cryptographic_hash_chain_to_genesis B g start t = Reached n \<longrightarrow>
      (\<exists>ks. length ks = n \<and> chain_ok B g (start # ks) \<and> last (start # ks) = t))"
proof (intro conjI impI)
  assume "g k = Some H \<and> k \<noteq> t \<and> header_hash B H = Inr d \<and> d \<noteq> k"
  then show "walk_loop B g k t i = WalkError (HashMismatchAt k)"
    by (simp add: walk_loop_mismatch)
next
  assume "assert_cryptographic_hash_chain_to_genesis B g start t = Reached n"
  then have "walk_loop B g start t 0 = Reached n"
    by (simp add: assert_cryptographic_hash_chain_to_genesis_def)
  from walk_loop_reached[OF this]
  show "\<exists>ks. length ks = n \<and> chain_ok B g (start # ks) \<and> last (start # ks) = t" by simp
qed

theorem walker_checks_every_header_witness:
  "walk_loop demo_hash tampered_chain checkpoint_hash original_genesis 0 =
     WalkError (HashMismatchAt checkpoint_hash) \<and>
   assert_cryptographic_hash_chain_to_genesis demo_hash good_chain
     checkpoint_hash original_genesis = Reached 1 \<and>
   chain_ok demo_hash good_chain [checkpoint_hash, original_genesis]"
proof -
  have h: "header_hash demo_hash (demo_header genesis_hash original_genesis) = Inr genesis_hash"
    by (simp add: demo_header_hash length_hashes)
  from walker_checks_every_header[where g = tampered_chain and k = checkpoint_hash
      and H = "demo_header genesis_hash original_genesis" and t = original_genesis
      and B = demo_hash and d = genesis_hash and i = 0]
  have bad: "walk_loop demo_hash tampered_chain checkpoint_hash original_genesis 0 =
     WalkError (HashMismatchAt checkpoint_hash)"
    by (simp add: tampered_chain_lookup h distinct_hashes)
  from walker_checks_every_header[where g = good_chain and B = demo_hash
      and start = checkpoint_hash and t = original_genesis and n = 1] good_chain_reached
  obtain ks where ks: "length ks = 1" "chain_ok demo_hash good_chain (checkpoint_hash # ks)"
    "last (checkpoint_hash # ks) = original_genesis" by blast
  from ks(1) obtain x where x: "ks = [x]" by (cases ks) auto
  with ks(3) have "x = original_genesis" by simp
  with x ks(2) have "chain_ok demo_hash good_chain [checkpoint_hash, original_genesis]" by simp
  with bad good_chain_reached show ?thesis by blast
qed



section \<open>The header decoder\<close>

text \<open>
  Claim C9. On \<open>None\<close>, on the empty byte string and on every byte string shorter than 100
  bytes, \<open>deserialize_bincode_header\<close> returns \<open>None\<close> at its guard: the parsing code
  in the \<open>try\<close> block is not entered, so nothing is raised, caught or printed.
\<close>

theorem short_input_not_parsed:
  "(case data of None \<Rightarrow> True | Some d \<Rightarrow> length d < 100) \<Longrightarrow>
   deserialize_bincode_header data = NotParsed \<and>
   returned_header (deserialize_bincode_header data) = None"
  by (cases data) (simp_all add: deserialize_bincode_header_def)

theorem short_input_not_parsed_witness:
  "deserialize_bincode_header None = NotParsed \<and>
   deserialize_bincode_header (Some []) = NotParsed \<and>
   length (replicate 99 (0::byte)) < 100 \<and>
   deserialize_bincode_header (Some (replicate 99 0)) = NotParsed \<and>
   returned_header (deserialize_bincode_header (Some (replicate 99 0))) = None"
  using short_input_not_parsed[of None] short_input_not_parsed[of "Some []"]
    short_input_not_parsed[of "Some (replicate 99 0)"]
  by simp

text \<open>Bytes after the pruning point are not read: an example with three of them.\<close>

lemma trailing_bytes_ignored_example:
  "deserialize_bincode_header (Some (replicate 230 0 @ [1, 2, 3])) =
   deserialize_bincode_header (Some (replicate 230 0))"
  by code_simp

text \<open>
  Claim C6. A buffer of 198 zero bytes declares no parent levels and ends right after the
  field \<open>blue_score\<close>, where the 32 bytes of the pruning point should begin. The decoder
  does not fail on it: the slice for the pruning point is cut short without an error,
  and a header with an empty pruning point is returned.
\<close>

theorem truncated_pruning_point_is_decoded:
  "deserialize_bincode_header (Some (replicate 198 0)) =
     Parsed \<lparr>hd_hashMerkleRoot = replicate 32 0,
             hd_acceptedIDMerkleRoot = replicate 32 0,
             hd_utxoCommitment = replicate 32 0,
             hd_pruningPoint = [],
             hd_timeInMilliseconds = 0,
             hd_bits = 0,
             hd_nonce = 0,
             hd_daaScore = 0,
             hd_blueWork = replicate 24 0,
             hd_blueScore = 0,
             hd_version = 0,
             hd_parents = []\<rparr>"
  by code_simp

section \<open>The accessors of the RocksDB store\<close>

text \<open>
  Claim C7, as the code has it. With the database open, \<open>pruning_point\<close> returns the empty
  byte string when the record is absent, and the first 32 bytes of the stored value when
  it is present.
\<close>

theorem pruning_point_result:
  "db_available s \<Longrightarrow> db s = Some d \<Longrightarrow>
   pruning_point s =
     (case d [PRUNING_POINT] of None \<Rightarrow> [] | Some pp_bytes \<Rightarrow> take 32 pp_bytes)"
  by (simp add: pruning_point_def build_key_def slice_def split: option.splits)

theorem pruning_point_result_witness:
  "db_available pruning_store \<and>
   db pruning_store = Some (map_of [([PRUNING_POINT], genesis_hash @ [1, 2, 3])]) \<and>
   pruning_point pruning_store = genesis_hash"
  using pruning_point_result[of pruning_store
      "map_of [([PRUNING_POINT], genesis_hash @ [1, 2, 3])]"]
  by (simp add: pruning_store_def store_of_def length_hashes)

text \<open>
  Claim C7 as stated fails on a store without the record: the result is the empty byte
  string, not the hash of 32 zero bytes.
\<close>

theorem pruning_point_absent_counterexample:
  "pruning_point empty_store = [] \<and> pruning_point empty_store \<noteq> replicate 32 0"
  by (simp add: pruning_point_def empty_store_def)

lemma read_tips_concat:
  "list_all (\<lambda>t. length t = 32) ts \<Longrightarrow> length pre = pos \<Longrightarrow>
   read_tips (length ts) (pre @ concat ts) pos = ts"
proof (induction ts arbitrary: pre pos)
  case Nil
  then show ?case by simp
next
  case (Cons t ts)
  then have t: "length t = 32" and rest: "list_all (\<lambda>t. length t = 32) ts" by simp_all
  have "read_tips (length ts) ((pre @ t) @ concat ts) (pos + 32) = ts"
    using Cons.prems(2) t by (intro Cons.IH[OF rest]) simp
  then show ?case using Cons.prems(2) t by (simp add: slice_def)
qed

text \<open>
  Claim C8, as the code has it. With the database open, each half of the result of
  \<open>tips\<close> depends on its own record only: the tips are empty when the record TIPS is
  missing and are the decoded vector (count as u64 LE, then that many 32-byte hashes)
  when it is present; the selected tip is the hash of 32 zero bytes when the record
  HEADERS_SELECTED_TIP is missing and the first 32 bytes of the stored value when it is
  present.
\<close>

theorem tips_result:
  assumes "db_available s" and "db s = Some d"
  shows "(d [TIPS] = None \<longrightarrow> fst (tips s) = []) \<and>
         (d [HEADERS_SELECTED_TIP] = None \<longrightarrow> snd (tips s) = replicate 32 0) \<and>
         (d [HEADERS_SELECTED_TIP] = Some hb \<longrightarrow> snd (tips s) = take 32 hb) \<and>
         (d [TIPS] = Some (le_bytes 8 (int (length ts)) @ concat ts) \<and>
          list_all (\<lambda>t. length t = 32) ts \<and> fits Fmt_Q (int (length ts))
          \<longrightarrow> fst (tips s) = ts)"
proof (intro conjI impI)
  assume "d [TIPS] = None"
  then show "fst (tips s) = []" using assms by (simp add: tips_def build_key_def Let_def)
next
  assume "d [HEADERS_SELECTED_TIP] = None"
  then show "snd (tips s) = replicate 32 0"
    using assms by (simp add: tips_def build_key_def Let_def split: option.splits sum.splits)
next
  assume "d [HEADERS_SELECTED_TIP] = Some hb"
  then show "snd (tips s) = take 32 hb"
    using assms
    by (simp add: tips_def build_key_def Let_def slice_def split: option.splits sum.splits)
next
  assume a: "d [TIPS] = Some (le_bytes 8 (int (length ts)) @ concat ts) \<and>
          list_all (\<lambda>t. length t = 32) ts \<and> fits Fmt_Q (int (length ts))"
  let ?tb = "le_bytes 8 (int (length ts)) @ concat ts"
  have s8: "slice ?tb 0 8 = le_bytes 8 (int (length ts))"
    by (simp add: slice_def length_le_bytes)
  have rt: "read_tips (length ts) ?tb 8 = ts"
    using a by (intro read_tips_concat) (simp_all add: length_le_bytes)
  show "fst (tips s) = ts"
    using assms a
    by (simp add: tips_def build_key_def Let_def s8 unpack_pack_Q rt length_le_bytes)
qed

theorem tips_result_witness:
  "tips tips_store = ([checkpoint_hash, original_genesis], genesis_hash) \<and>
   tips empty_store = ([], replicate 32 0)"
proof -
  let ?d = "map_of [([TIPS], le_bytes 8 2 @ checkpoint_hash @ original_genesis),
                    ([HEADERS_SELECTED_TIP], genesis_hash @ [9])]"
  have neq: "[TIPS] \<noteq> [HEADERS_SELECTED_TIP]"
    by (simp add: TIPS_def HEADERS_SELECTED_TIP_def)
  have a: "db_available tips_store" and b: "db tips_store = Some ?d"
    by (simp_all add: tips_store_def store_of_def)
  have f: "fits Fmt_Q (int (length [checkpoint_hash, original_genesis]))"
    by (simp add: fits_def)
  from tips_result[OF a b, of "genesis_hash @ [9]" "[checkpoint_hash, original_genesis]"] f neq
  have "fst (tips tips_store) = [checkpoint_hash, original_genesis]"
    and "snd (tips tips_store) = genesis_hash"
    by (simp_all add: length_hashes)
  then have one: "tips tips_store = ([checkpoint_hash, original_genesis], genesis_hash)"
    by (simp add: prod_eq_iff)
  have a': "db_available empty_store" and b': "db empty_store = Some Map.empty"
    by (simp_all add: empty_store_def)
  from tips_result[OF a' b', of "[]" "[]"]
  have "tips empty_store = ([], replicate 32 0)"
    by (simp add: prod_eq_iff)
  with one show ?thesis by blast
qed

text \<open>
  Claim C8 as stated fails on a store with the record TIPS and without the record
  HEADERS_SELECTED_TIP: the tips are returned, not the empty sequence.
\<close>

theorem tips_one_record_missing_counterexample:
  "db tips_only_store = Some (map_of [([TIPS], le_bytes 8 1 @ genesis_hash)]) \<and>
   map_of [([TIPS], le_bytes 8 1 @ genesis_hash)] [HEADERS_SELECTED_TIP] = None \<and>
   tips tips_only_store = ([genesis_hash], replicate 32 0) \<and>
   tips tips_only_store \<noteq> ([], replicate 32 0)"
proof -
  have neq: "[HEADERS_SELECTED_TIP] \<noteq> [TIPS]"
    by (simp add: TIPS_def HEADERS_SELECTED_TIP_def)
  have t: "tips tips_only_store = ([genesis_hash], replicate 32 0)"
    by code_simp
  show ?thesis
    using neq by (simp add: t) (simp add: tips_only_store_def store_of_def)
qed

text \<open>
  Claim C10, as the code has it. When a call of \<open>get_header_data\<close> returns a header, the
  header is in the cache afterwards, and a second call for the same hash returns exactly
  that header and leaves the store as it is, whatever the database holds by then: the
  database is not read again. When a call returns \<open>None\<close>, the store is unchanged and
  holds nothing for the hash, and the next call reads the database: it returns a header
  exactly when the database then holds a value under the key of the hash.
\<close>

theorem get_header_data_cached:
  "(get_header_data s h = (Some hdr, s') \<longrightarrow>
      headers s' h = Some hdr \<and>
      get_header_data (s'\<lparr>db_available := a, db := d\<rparr>) h =
        (Some hdr, s'\<lparr>db_available := a, db := d\<rparr>)) \<and>
   (get_header_data s h = (None, s') \<longrightarrow>
      s' = s \<and> headers s' h = None \<and>
      (fst (get_header_data (s'\<lparr>db_available := True, db := Some m\<rparr>) h) = None
         \<longleftrightarrow> m (HEADERS # h) = None))"
proof (intro conjI impI)
  assume hit: "get_header_data s h = (Some hdr, s')"
  then show c: "headers s' h = Some hdr"
    by (auto simp: get_header_data_def Let_def split: option.splits)
  then show "get_header_data (s'\<lparr>db_available := a, db := d\<rparr>) h =
        (Some hdr, s'\<lparr>db_available := a, db := d\<rparr>)"
    by (simp add: get_header_data_def)
next
  assume miss: "get_header_data s h = (None, s')"
  then show same: "s' = s"
    by (auto simp: get_header_data_def Let_def split: option.splits)
  from miss show none: "headers s' h = None"
    by (auto simp: get_header_data_def Let_def split: option.splits)
  show "fst (get_header_data (s'\<lparr>db_available := True, db := Some m\<rparr>) h) = None
         \<longleftrightarrow> m (HEADERS # h) = None"
    using none
    by (simp add: get_header_data_def get_raw_header_def build_key_def Let_def
        split: option.splits)
qed

theorem get_header_data_cached_witness:
  "fst (get_header_data demo_store genesis_hash) \<noteq> None \<and>
   get_header_data (snd (get_header_data demo_store genesis_hash)
                      \<lparr>db_available := False, db := None\<rparr>) genesis_hash =
     (fst (get_header_data demo_store genesis_hash),
      snd (get_header_data demo_store genesis_hash)\<lparr>db_available := False, db := None\<rparr>) \<and>
   get_header_data empty_store genesis_hash = (None, empty_store) \<and>
   headers empty_store genesis_hash = None \<and>
   map_of [(HEADERS # genesis_hash, [0])] (HEADERS # genesis_hash) \<noteq> None \<and>
   fst (get_header_data
          (empty_store\<lparr>db_available := True,
                         db := Some (map_of [(HEADERS # genesis_hash, [0])])\<rparr>)
          genesis_hash) \<noteq> None"
proof -
  have ne: "fst (get_header_data demo_store genesis_hash) \<noteq> None"
    by code_simp
  then obtain hdr where hdr: "fst (get_header_data demo_store genesis_hash) = Some hdr"
    by blast
  then have hit: "get_header_data demo_store genesis_hash =
      (Some hdr, snd (get_header_data demo_store genesis_hash))"
    by (simp add: prod_eq_iff)
  from get_header_data_cached[where s = demo_store and h = genesis_hash and hdr = hdr
      and s' = "snd (get_header_data demo_store genesis_hash)" and a = False and d = None]
    hit hdr
  have one: "get_header_data (snd (get_header_data demo_store genesis_hash)
                      \<lparr>db_available := False, db := None\<rparr>) genesis_hash =
     (fst (get_header_data demo_store genesis_hash),
      snd (get_header_data demo_store genesis_hash)\<lparr>db_available := False, db := None\<rparr>)"
    by simp
  have miss: "get_header_data empty_store genesis_hash = (None, empty_store)"
    by (simp add: get_header_data_def empty_store_def get_raw_header_def build_key_def)
  have present: "map_of [(HEADERS # genesis_hash, [0])] (HEADERS # genesis_hash) \<noteq> None"
    by simp
  from get_header_data_cached[where s = empty_store and h = genesis_hash
      and s' = empty_store and m = "map_of [(HEADERS # genesis_hash, [0])]"] miss present
  have two: "headers empty_store genesis_hash = None"
    and three: "fst (get_header_data
          (empty_store\<lparr>db_available := True,
                         db := Some (map_of [(HEADERS # genesis_hash, [0])])\<rparr>)
          genesis_hash) \<noteq> None"
    by simp_all
  from ne one miss two present three show ?thesis by blast
qed

text \<open>
  Claim C10 as stated fails for a hash without a header in the database: the call returns
  \<open>None\<close> and caches nothing, and once the database holds a value under the key the
  next call reads it.
\<close>

theorem get_header_data_miss_counterexample:
  "get_header_data empty_store genesis_hash = (None, empty_store) \<and>
   fst (get_header_data (empty_store\<lparr>db := db late_store\<rparr>) genesis_hash) \<noteq> None"
  by (simp add: get_header_data_def empty_store_def late_store_def store_of_def
       get_raw_header_def build_key_def deserialize_bincode_header_def RawHeader_def Let_def)

section \<open>The driver\<close>

lemma length_genesis_tx_payload: "length genesis_tx_payload = 204"
  by (simp add: genesis_tx_payload_def)

lemma transaction_hash_genesis:
  "transaction_hash B genesis_coinbase_tx =
     Inr (B K_TX (le_bytes 2 0 @ le_bytes 8 0 @ le_bytes 8 0 @ le_bytes 8 0 @
                  genesis_subnetwork_id @ le_bytes 8 0 @ le_bytes 8 204 @ genesis_tx_payload))"
  by (simp add: transaction_hash_def genesis_coinbase_tx_def length_genesis_tx_payload fits_def
      hasher_update_def blake2b_new_def digest_def)

lemma genesis_subnetwork_id_eq: "genesis_subnetwork_id = 1 # replicate 19 0"
  by code_simp

lemma coinbase_mismatch_fails:
  "get_raw_header_method cur genesis_hash = Some gh \<Longrightarrow>
   transaction_hash B genesis_coinbase_tx \<noteq> Inr (hashMerkleRoot gh) \<Longrightarrow>
   \<not> fst (verify_genesis B cur cp pre)"
  by (auto simp: verify_genesis_def Let_def split: option.splits sum.splits)

text \<open>
  Claim C4, as the code has it. The genesis coinbase transaction has no inputs and no
  outputs, version, lock time and gas 0, the subnetwork id 01 followed by 19 zero bytes,
  and the literal payload, which is 204 bytes long. Its hash is the digest under the key
  \<open>TransactionHash\<close> of version, input count, output count, lock time, subnetwork id,
  gas, payload length and payload; and whenever that digest differs from the
  \<open>hashMerkleRoot\<close> of the genesis header of the store, \<open>verify_genesis\<close> returns
  \<open>False\<close>.
\<close>

theorem genesis_coinbase_check:
  "genesis_coinbase_tx =
     \<lparr>tx_version = 0, inputs = [], outputs = [], lockTime = 0,
      subnetworkId = 1 # replicate 19 0, gas = 0, payload = genesis_tx_payload\<rparr> \<and>
   length genesis_tx_payload = 204 \<and>
   transaction_hash B genesis_coinbase_tx =
     Inr (B K_TX (le_bytes 2 0 @ le_bytes 8 0 @ le_bytes 8 0 @ le_bytes 8 0 @
                  (1 # replicate 19 0) @ le_bytes 8 0 @ le_bytes 8 204 @ genesis_tx_payload)) \<and>
   (get_raw_header_method cur genesis_hash = Some gh \<and>
    transaction_hash B genesis_coinbase_tx \<noteq> Inr (hashMerkleRoot gh) \<longrightarrow>
      \<not> fst (verify_genesis B cur cp pre))"
proof (intro conjI impI)
  show "genesis_coinbase_tx =
     \<lparr>tx_version = 0, inputs = [], outputs = [], lockTime = 0,
      subnetworkId = 1 # replicate 19 0, gas = 0, payload = genesis_tx_payload\<rparr>"
    by (simp only: genesis_coinbase_tx_def genesis_subnetwork_id_eq)
  show "length genesis_tx_payload = 204" by (rule length_genesis_tx_payload)
  show "transaction_hash B genesis_coinbase_tx =
     Inr (B K_TX (le_bytes 2 0 @ le_bytes 8 0 @ le_bytes 8 0 @ le_bytes 8 0 @
                  (1 # replicate 19 0) @ le_bytes 8 0 @ le_bytes 8 204 @ genesis_tx_payload))"
    by (simp only: transaction_hash_genesis genesis_subnetwork_id_eq)
next
  assume "get_raw_header_method cur genesis_hash = Some gh \<and>
    transaction_hash B genesis_coinbase_tx \<noteq> Inr (hashMerkleRoot gh)"
  then show "\<not> fst (verify_genesis B cur cp pre)"
    by (simp add: coinbase_mismatch_fails)
qed

theorem genesis_coinbase_check_witness:
  "get_raw_header_method (rust_store demo_store) genesis_hash \<noteq> None \<and>
   header_hash mismatch_hash
     (the (get_raw_header_method (rust_store demo_store) genesis_hash)) = Inr genesis_hash \<and>
   transaction_hash mismatch_hash genesis_coinbase_tx = Inr K_BLOCK \<and>
   K_BLOCK \<noteq> hashMerkleRoot (the (get_raw_header_method (rust_store demo_store) genesis_hash)) \<and>
   verify_genesis mismatch_hash (rust_store demo_store) Absent None =
     (False, [GenesisCoinbaseMismatch])"
proof -
  have ne: "get_raw_header_method (rust_store demo_store) genesis_hash \<noteq> None"
    by code_simp
  then obtain gh where gh: "get_raw_header_method (rust_store demo_store) genesis_hash = Some gh"
    by blast
  have p3: "header_hash mismatch_hash
      (the (get_raw_header_method (rust_store demo_store) genesis_hash)) = Inr genesis_hash"
    by code_simp
  have m: "hashMerkleRoot (the (get_raw_header_method (rust_store demo_store) genesis_hash))
      = genesis_hash"
    by code_simp
  have k: "K_BLOCK \<noteq> genesis_hash"
    by (simp add: K_BLOCK_def genesis_hash_def)
  have printed: "snd (verify_genesis mismatch_hash (rust_store demo_store) Absent None) =
      [GenesisCoinbaseMismatch]"
    by code_simp
  note w = genesis_coinbase_check[where B = mismatch_hash and cur = "rust_store demo_store"
      and gh = gh and cp = Absent and pre = None]
  from w have t: "transaction_hash mismatch_hash genesis_coinbase_tx = Inr K_BLOCK"
    by (simp add: mismatch_hash_def)
  from w gh m k t
  have "\<not> fst (verify_genesis mismatch_hash (rust_store demo_store) Absent None)"
    by simp
  with printed
  have r: "verify_genesis mismatch_hash (rust_store demo_store) Absent None =
     (False, [GenesisCoinbaseMismatch])"
    by (simp add: prod_eq_iff)
  from ne p3 t k m r show ?thesis by simp
qed

text \<open>Claim C4 as stated fails on the payload: the literal of the driver is not 176 bytes long.\<close>

theorem genesis_payload_length_counterexample:
  "length (payload genesis_coinbase_tx) = 204 \<and> length (payload genesis_coinbase_tx) \<noteq> 176"
  by (simp add: genesis_coinbase_tx_def length_genesis_tx_payload)

lemma verify_genesis_reaches_step7:
  "fst (verify_genesis B cur Absent pre) \<Longrightarrow>
   \<exists>gh. get_raw_header_method cur genesis_hash = Some gh \<and>
        verify_genesis B cur cp pre = verify_genesis_step7 B gh cp pre"
  by (auto simp: verify_genesis_def Let_def
      split: option.splits sum.splits if_splits walk_result.splits)

lemma step7_true:
  "\<not> raised (assert_cryptographic_hash_chain_to_genesis B
        (checkpoint_get_raw_header (CheckpointStore chain)) checkpoint_hash original_genesis) \<Longrightarrow>
   fst (verify_genesis_step7 B gh (HeadersChain chain) pre)"
  by (auto simp: verify_genesis_step7_def Let_def split: option.splits walk_result.splits)

text \<open>
  Claim C1. What the code does where the claim asks for a failure: when the verification
  succeeds without a checkpoint file, it succeeds with every checkpoint file whose walk
  raises no exception, whatever the file holds. A missing checkpoint header, differing
  UTXO commitments, a failed walk and a non-empty original genesis are printed as errors
  and the driver still returns \<open>True\<close>.
\<close>

theorem step7_failures_do_not_fail:
  assumes "fst (verify_genesis B cur Absent pre)"
    and "\<not> raised (assert_cryptographic_hash_chain_to_genesis B
        (checkpoint_get_raw_header (CheckpointStore chain)) checkpoint_hash original_genesis)"
  shows "fst (verify_genesis B cur (HeadersChain chain) pre)"
proof -
  from verify_genesis_reaches_step7[OF assms(1), of "HeadersChain chain"]
  obtain gh where "verify_genesis B cur (HeadersChain chain) pre =
      verify_genesis_step7 B gh (HeadersChain chain) pre" by blast
  with step7_true[OF assms(2)] show ?thesis by simp
qed

theorem step7_failures_do_not_fail_witness:
  "verify_genesis demo_hash (rust_store demo_store) Absent None = (True, []) \<and>
   verify_genesis demo_hash (rust_store demo_store) (HeadersChain []) None =
     (True, [CheckpointHeaderNotFound]) \<and>
   verify_genesis demo_hash (rust_store demo_store)
     (HeadersChain [(checkpoint_hash, demo_header original_genesis [])]) None =
     (True, [UtxoCommitmentMismatch, HashMismatchAt checkpoint_hash,
             CheckpointChainVerificationFailed])"
proof -
  have e1: "verify_genesis demo_hash (rust_store demo_store) Absent None = (True, [])"
    by code_simp
  then have h1: "fst (verify_genesis demo_hash (rust_store demo_store) Absent None)" by simp
  have h2: "\<not> raised (assert_cryptographic_hash_chain_to_genesis demo_hash
        (checkpoint_get_raw_header (CheckpointStore [])) checkpoint_hash original_genesis)"
    by code_simp
  have h3: "\<not> raised (assert_cryptographic_hash_chain_to_genesis demo_hash
        (checkpoint_get_raw_header
           (CheckpointStore [(checkpoint_hash, demo_header original_genesis [])]))
        checkpoint_hash original_genesis)"
    by code_simp
  have s2: "snd (verify_genesis demo_hash (rust_store demo_store) (HeadersChain []) None) =
     [CheckpointHeaderNotFound]"
    by code_simp
  have s3: "snd (verify_genesis demo_hash (rust_store demo_store)
     (HeadersChain [(checkpoint_hash, demo_header original_genesis [])]) None) =
     [UtxoCommitmentMismatch, HashMismatchAt checkpoint_hash,
      CheckpointChainVerificationFailed]"
    by code_simp
  from step7_failures_do_not_fail[OF h1 h2] s2
  have e2: "verify_genesis demo_hash (rust_store demo_store) (HeadersChain []) None =
     (True, [CheckpointHeaderNotFound])"
    by (simp add: prod_eq_iff)
  from step7_failures_do_not_fail[OF h1 h3] s3
  have e3: "verify_genesis demo_hash (rust_store demo_store)
     (HeadersChain [(checkpoint_hash, demo_header original_genesis [])]) None =
     (True, [UtxoCommitmentMismatch, HashMismatchAt checkpoint_hash,
             CheckpointChainVerificationFailed])"
    by (simp add: prod_eq_iff)
  from e1 e2 e3 show ?thesis by blast
qed

end
